theory Spec2Isabelle
  imports Main
begin

section \<open>JavaScript values used by the API token scheme\<close>

text \<open>
  The scheme of \<^verbatim>\<open>src/Schemes/Api.js\<close> handles strings, numbers (primary keys),
  \<^verbatim>\<open>null\<close> and \<^verbatim>\<open>undefined\<close>. Objects (a user, the extra columns of a token, a query
  filter) are association lists from property names to values; a missing property reads as
  \<^verbatim>\<open>undefined\<close>.
\<close>

datatype jsval = Undefined | Null | Num int | Str string

type_synonym jsobj = "(string \<times> jsval) list"

text \<open>The truthiness that \<^verbatim>\<open>!x\<close> negates.\<close>

fun truthy :: "jsval \<Rightarrow> bool" where
  "truthy Undefined = False"
| "truthy Null = False"
| "truthy (Num n) = (n \<noteq> 0)"
| "truthy (Str s) = (s \<noteq> [])"

text \<open>Property access \<^verbatim>\<open>obj[key]\<close> on an object.\<close>

definition getProp :: "jsobj \<Rightarrow> string \<Rightarrow> jsval" where
  "getProp obj k = (case map_of obj k of None \<Rightarrow> Undefined | Some v \<Rightarrow> v)"

text \<open>Decimal digits of a number, as a template literal prints it.\<close>

fun string_of_nat :: "nat \<Rightarrow> string" where
  "string_of_nat n =
     (if n < 10 then [''0123456789'' ! n]
      else string_of_nat (n div 10) @ [''0123456789'' ! (n mod 10)])"

definition string_of_int :: "int \<Rightarrow> string" where
  "string_of_int i =
     (if i < 0 then CHR ''-'' # string_of_nat (nat (- i)) else string_of_nat (nat i))"

text \<open>The string a value becomes inside a template literal \<^verbatim>\<open>`${v}`\<close>.\<close>

fun toString :: "jsval \<Rightarrow> string" where
  "toString Undefined = ''undefined''"
| "toString Null = ''null''"
| "toString (Num n) = string_of_int n"
| "toString (Str s) = s"

text \<open>
  \<^verbatim>\<open>s.split(sep)\<close>: the pieces of \<open>s\<close> between the occurrences of \<open>sep\<close>, found from
  left to right without overlap. \<open>cur\<close> is the piece being read.
\<close>

function splitFrom :: "string \<Rightarrow> string \<Rightarrow> string \<Rightarrow> string list" where
  "splitFrom sep cur [] = [cur]"
| "splitFrom sep cur (c # cs) =
     (if sep \<noteq> [] \<and> take (length sep) (c # cs) = sep
      then cur # splitFrom sep [] (drop (length sep) (c # cs))
      else splitFrom sep (cur @ [c]) cs)"
  by pat_completeness auto
termination
  by (relation "measure (\<lambda>(sep, cur, s). length s)") auto

definition js_split :: "string \<Rightarrow> string \<Rightarrow> string list" where
  "js_split sep s = (if sep = [] then map (\<lambda>c. [c]) s else splitFrom sep [] s)"

text \<open>
  Array destructuring \<^verbatim>\<open>const [a, b] = xs\<close> never fails: a position past the end of
  the array binds \<^verbatim>\<open>undefined\<close>.
\<close>

definition element :: "string list \<Rightarrow> nat \<Rightarrow> jsval" where
  "element xs i = (if i < length xs then Str (xs ! i) else Undefined)"

section \<open>Errors\<close>

text \<open>
  \<^verbatim>\<open>GE.RuntimeException.invoke(message)\<close> carries its message; \<^verbatim>\<open>CE.InvalidApiToken\<close> is
  the token error. \<open>ReferenceError\<close> and \<open>TypeError\<close> are the language's own errors, for
  reading an identifier that has no binding and for reading a property of \<^verbatim>\<open>null\<close>.
  \<open>DecryptionError\<close> is the failure of the encryption collaborator.
\<close>

datatype error =
    RuntimeException string
  | InvalidApiToken
  | ReferenceError string
  | TypeError string
  | DecryptionError

section \<open>The token store\<close>

text \<open>
  A persisted token: the user it belongs to, its type, the plain token, and the extra
  columns given when it was saved.
\<close>

record token_record =
  tr_user :: jsobj
  tr_type :: string
  tr_token :: string
  tr_columns :: jsobj

text \<open>The collaborator calls a method makes, in the order it makes them.\<close>

datatype event =
    EvGetAuthHeader
  | EvSaveToken string string
  | EvEncrypt string
  | EvDecrypt string
  | EvFindByToken jsval jsval
  | EvListTokens string

section \<open>The scheme and the request-scoped state\<close>

record request =
  authorization :: "string option"
  input_token :: "string option"

text \<open>
  What a scheme instance is built with: the configured \<open>group\<close> (a string or
  \<^verbatim>\<open>null\<close>), the serializer's key names, the encryption collaborator, the request it
  serves, and the global object, where an identifier that no enclosing scope declares is
  looked up.
\<close>

record scheme =
  group :: "string option"
  primaryKey :: string
  foreignKey :: string
  encrypt :: "string \<Rightarrow> string"
  decrypt :: "string \<Rightarrow> string option"
  req :: request
  globalThis :: "string \<Rightarrow> jsval option"

text \<open>
  What the methods read and write: the user attached to the request (\<^verbatim>\<open>this.user\<close>),
  the persisted tokens, and the trace of collaborator calls.
\<close>

record auth_state =
  user :: "jsobj option"
  store :: "token_record list"
  trace :: "event list"

definition DELIMITER :: string where
  "DELIMITER = '':~~:''"

text \<open>
  Modelled from the spec: the serializer (\<^verbatim>\<open>this._serializerInstance\<close>), the TokenStore
  of the specification, is not among the sources. \<open>saveToken\<close> persists a record for the
  user, the plain token, the type and the extra columns; \<open>findByToken\<close> returns the user of
  the first record with that plain token and type whose columns equal every entry of the
  filter, the foreign-key column being the user's primary key, or \<^verbatim>\<open>null\<close> when there is
  none; \<open>listTokens\<close> returns the records of a user with a given type, in the order they
  were saved.
\<close>

definition saveToken ::
  "jsobj \<Rightarrow> string \<Rightarrow> string \<Rightarrow> jsobj \<Rightarrow> token_record list \<Rightarrow> token_record list" where
  "saveToken u plainToken tokenType columns st =
     st @ [\<lparr>tr_user = u, tr_type = tokenType, tr_token = plainToken, tr_columns = columns\<rparr>]"

definition column :: "scheme \<Rightarrow> token_record \<Rightarrow> string \<Rightarrow> jsval" where
  "column cx r k =
     (if k = foreignKey cx then getProp (tr_user r) (primaryKey cx) else getProp (tr_columns r) k)"

definition column_equals :: "jsval \<Rightarrow> jsval \<Rightarrow> bool" where
  "column_equals c v =
     (c \<noteq> Undefined \<and> c \<noteq> Null \<and> v \<noteq> Undefined \<and> v \<noteq> Null \<and> toString c = toString v)"

definition matches :: "scheme \<Rightarrow> jsval \<Rightarrow> jsval \<Rightarrow> jsobj \<Rightarrow> token_record \<Rightarrow> bool" where
  "matches cx plainToken tokenType flt r =
     (Str (tr_token r) = plainToken \<and> Str (tr_type r) = tokenType \<and>
      list_all (\<lambda>kv. column_equals (column cx r (fst kv)) (snd kv)) flt)"

definition findByToken ::
  "scheme \<Rightarrow> jsval \<Rightarrow> jsval \<Rightarrow> jsobj \<Rightarrow> token_record list \<Rightarrow> jsobj option" where
  "findByToken cx plainToken tokenType flt st =
     (case filter (matches cx plainToken tokenType flt) st of
        [] \<Rightarrow> None
      | r # _ \<Rightarrow> Some (tr_user r))"

definition listTokens :: "scheme \<Rightarrow> jsobj \<Rightarrow> string \<Rightarrow> token_record list \<Rightarrow> token_record list" where
  "listTokens cx u tokenType st =
     filter (\<lambda>r. getProp (tr_user r) (primaryKey cx) = getProp u (primaryKey cx) \<and>
                  tr_type r = tokenType) st"

text \<open>
  Modelled from the spec: \<^verbatim>\<open>getAuthHeader\<close> is inherited from \<^verbatim>\<open>BaseToken\<close>, which is
  not among the sources. It reads the token from the Authorization header, with the
  accepted schemes \<^verbatim>\<open>Bearer <token>\<close> and \<^verbatim>\<open>token <token>\<close>, and falls back to the
  \<^verbatim>\<open>token\<close> input field; \<^verbatim>\<open>null\<close> when neither gives one.
\<close>

definition getAuthHeader :: "request \<Rightarrow> string option" where
  "getAuthHeader rq =
     (case authorization rq of
        None \<Rightarrow> input_token rq
      | Some h \<Rightarrow>
          if take 7 h = ''Bearer '' then Some (drop 7 h)
          else if take 6 h = ''token '' then Some (drop 6 h)
          else input_token rq)"

section \<open>The wire token\<close>

text \<open>
  Lines 144 and 145 of \<^verbatim>\<open>generate\<close>: the payload \<^verbatim>\<open>`${userId}${DELIMITER}${plainToken}`\<close>
  is encrypted and prefixed with the type and the environment.
\<close>

definition encodeToken :: "scheme \<Rightarrow> string \<Rightarrow> string \<Rightarrow> string \<Rightarrow> string \<Rightarrow> string" where
  "encodeToken cx userId plainToken tokenType environment =
     tokenType @ ''_'' @ environment @ ''_'' @ encrypt cx (userId @ DELIMITER @ plainToken)"

text \<open>
  Lines 187 and 197 of \<^verbatim>\<open>check\<close>: the token is split on the underscore into the type,
  the environment and the remaining pieces; the remaining pieces are joined with the empty
  string, decrypted, and split on the delimiter into the user id and the plain token.
\<close>

record decoded =
  d_tokenType :: jsval
  d_environment :: jsval
  d_tokens :: "string list"

definition splitToken :: "string \<Rightarrow> decoded" where
  "splitToken t =
     (let parts = js_split ''_'' t
      in \<lparr>d_tokenType = element parts 0, d_environment = element parts 1,
          d_tokens = drop 2 parts\<rparr>)"

definition decryptPayload :: "scheme \<Rightarrow> string list \<Rightarrow> error + jsval \<times> jsval" where
  "decryptPayload cx tokens =
     (case decrypt cx (concat tokens) of
        None \<Rightarrow> Inl DecryptionError
      | Some plain \<Rightarrow>
          (let ps = js_split DELIMITER plain in Inr (element ps 0, element ps 1)))"

definition decodeToken :: "scheme \<Rightarrow> string \<Rightarrow> error + jsval \<times> jsval" where
  "decodeToken cx t = decryptPayload cx (d_tokens (splitToken t))"

section \<open>The methods of ApiScheme\<close>

record bearer =
  rtype :: string
  rtoken :: string

definition addEvents :: "event list \<Rightarrow> auth_state \<Rightarrow> auth_state" where
  "addEvents es s = s\<lparr>trace := trace s @ es\<rparr>"

text \<open>
  \<^verbatim>\<open>generate(user, tokenType, environment, columns)\<close>. \<open>uuid4\<close> is the value that
  \<^verbatim>\<open>uuid.v4()\<close> returns in this call. A \<^verbatim>\<open>null\<close> user fails at \<^verbatim>\<open>user[this.primaryKey]\<close>.
\<close>

definition generate ::
  "scheme \<Rightarrow> jsobj option \<Rightarrow> string \<Rightarrow> string \<Rightarrow> jsobj \<Rightarrow> string \<Rightarrow> auth_state
     \<Rightarrow> (error + bearer) \<times> auth_state" where
  "generate cx usr tokenType environment columns uuid4 s =
     (if tokenType = [] then (Inl (RuntimeException ''Token type cannot be empty''), s)
      else if group cx = None \<or> group cx = Some []
        then (Inl (RuntimeException ''Token group cannot be empty''), s)
      else if environment = []
        then (Inl (RuntimeException ''Token environment cannot be empty''), s)
      else if CHR ''_'' \<in> set environment
        then (Inl (RuntimeException ''Token environment cannot contain underscores''), s)
      else
        (case usr of
           None \<Rightarrow> (Inl (TypeError ''Cannot read properties of null''), s)
         | Some u \<Rightarrow>
             (let userId = getProp u (primaryKey cx) in
              if \<not> truthy userId
              then (Inl (RuntimeException ''Primary key value is missing for user''), s)
              else
                (let plainToken = filter (\<lambda>c. c \<noteq> CHR ''-'') uuid4;
                     s1 = addEvents [EvSaveToken plainToken tokenType]
                            (s\<lparr>store := saveToken u plainToken tokenType columns (store s)\<rparr>);
                     s2 = addEvents [EvEncrypt (toString userId @ DELIMITER @ plainToken)] s1;
                     token = encodeToken cx (toString userId) plainToken tokenType environment
                 in (Inr \<lparr>rtype = ''bearer'', rtoken = token\<rparr>, s2)))))"

text \<open>The value of \<^verbatim>\<open>this.group\<close>.\<close>

definition this_group :: "scheme \<Rightarrow> jsval" where
  "this_group cx = (case group cx of None \<Rightarrow> Null | Some g \<Rightarrow> Str g)"

text \<open>
  \<^verbatim>\<open>check()\<close>. Line 188 compares the identifier \<^verbatim>\<open>group\<close> with \<^verbatim>\<open>this.group\<close>; the
  method and the module declare no \<^verbatim>\<open>group\<close>, so it is read from the global object, and
  reading it throws a \<open>ReferenceError\<close> when the global object has none.
\<close>

definition check :: "scheme \<Rightarrow> auth_state \<Rightarrow> (error + bool) \<times> auth_state" where
  "check cx s =
     (if user s \<noteq> None then (Inr True, s)
      else
        (let s0 = addEvents [EvGetAuthHeader] s in
         case getAuthHeader (req cx) of
           None \<Rightarrow> (Inl InvalidApiToken, s0)
         | Some t \<Rightarrow>
             if t = [] then (Inl InvalidApiToken, s0)
             else
               (let d = splitToken t in
                case globalThis cx ''group'' of
                  None \<Rightarrow> (Inl (ReferenceError ''group is not defined''), s0)
                | Some g \<Rightarrow>
                    if g \<noteq> this_group cx then (Inl InvalidApiToken, s0)
                    else
                      (let s1 = addEvents [EvDecrypt (concat (d_tokens d))] s0 in
                       case decryptPayload cx (d_tokens d) of
                         Inl e \<Rightarrow> (Inl e, s1)
                       | Inr (userId, plainToken) \<Rightarrow>
                           (let found = findByToken cx plainToken (d_tokenType d)
                                  [(foreignKey cx, userId), (''group'', this_group cx),
                                   (''environment'', d_environment d)] (store s1);
                                s2 = addEvents [EvFindByToken plainToken (d_tokenType d)]
                                       (s1\<lparr>user := found\<rparr>)
                            in if found = None then (Inl InvalidApiToken, s2)
                               else (Inr True, s2))))))"

text \<open>\<^verbatim>\<open>loginIfCan()\<close>: the \<^verbatim>\<open>catch\<close> turns every error of \<^verbatim>\<open>check\<close> into \<^verbatim>\<open>false\<close>.\<close>

definition loginIfCan :: "scheme \<Rightarrow> auth_state \<Rightarrow> (error + bool) \<times> auth_state" where
  "loginIfCan cx s =
     (if user s \<noteq> None then (Inr True, s)
      else
        (let s0 = addEvents [EvGetAuthHeader] s in
         case getAuthHeader (req cx) of
           None \<Rightarrow> (Inr False, s0)
         | Some t \<Rightarrow>
             if t = [] then (Inr False, s0)
             else
               (case check cx s0 of
                  (Inr b, s1) \<Rightarrow> (Inr b, s1)
                | (Inl e, s1) \<Rightarrow> (Inr False, s1))))"

text \<open>
  \<^verbatim>\<open>listTokensForUser(user)\<close>: the tokens of type \<^verbatim>\<open>'api_token'\<close>, each with its token
  encrypted.
\<close>

definition listTokensForUser ::
  "scheme \<Rightarrow> jsobj option \<Rightarrow> auth_state \<Rightarrow> token_record list \<times> auth_state" where
  "listTokensForUser cx usr s =
     (case usr of
        None \<Rightarrow> ([], s)
      | Some u \<Rightarrow>
          (let tokens = listTokens cx u ''api_token'' (store s);
               s1 = addEvents (EvListTokens ''api_token'' # map (\<lambda>t. EvEncrypt (tr_token t)) tokens) s
           in (map (\<lambda>t. t\<lparr>tr_token := encrypt cx (tr_token t)\<rparr>) tokens, s1)))"

section \<open>Error categories of the specification\<close>

text \<open>
  The specification names two categories among the failures of \<^verbatim>\<open>generate\<close>. In the
  source both are a \<^verbatim>\<open>GE.RuntimeException\<close>, told apart by the message: the four
  configuration messages, and the message for a user without a primary-key value.
\<close>

definition configMessages :: "string list" where
  "configMessages =
     [''Token type cannot be empty'', ''Token group cannot be empty'',
      ''Token environment cannot be empty'', ''Token environment cannot contain underscores'']"

definition isConfigurationError :: "error \<Rightarrow> bool" where
  "isConfigurationError e = (e \<in> set (map RuntimeException configMessages))"

definition isMissingIdentityError :: "error \<Rightarrow> bool" where
  "isMissingIdentityError e = (e = RuntimeException ''Primary key value is missing for user'')"

text \<open>The configurations that \<^verbatim>\<open>generate\<close> rejects in its first four tests.\<close>

definition badConfiguration :: "scheme \<Rightarrow> string \<Rightarrow> string \<Rightarrow> bool" where
  "badConfiguration cx tokenType environment =
     (tokenType = [] \<or> group cx = None \<or> group cx = Some [] \<or> environment = [] \<or>
      CHR ''_'' \<in> set environment)"

section \<open>A concrete scheme\<close>

text \<open>
  A scheme with the group \<^verbatim>\<open>'api_token'\<close>, users keyed by \<^verbatim>\<open>id\<close>, and a global object
  without a \<^verbatim>\<open>group\<close>, as Node.js has it. The encryption collaborator is a toy cipher
  (the reversed string), which decrypts what it encrypts.
\<close>

definition exampleScheme :: "request \<Rightarrow> scheme" where
  "exampleScheme rq =
     \<lparr>group = Some ''api_token'', primaryKey = ''id'', foreignKey = ''user_id'',
      encrypt = rev, decrypt = (\<lambda>c. Some (rev c)), req = rq, globalThis = (\<lambda>_. None)\<rparr>"

definition noToken :: request where
  "noToken = \<lparr>authorization = None, input_token = None\<rparr>"

definition bearerRequest :: "string \<Rightarrow> request" where
  "bearerRequest t = \<lparr>authorization = Some (''Bearer '' @ t), input_token = None\<rparr>"

definition emptyState :: auth_state where
  "emptyState = \<lparr>user = None, store = [], trace = []\<rparr>"

definition user42 :: jsobj where
  "user42 = [(''id'', Num 42)]"

definition exampleUuid :: string where
  "exampleUuid = ''110ec58a-a0f2-4ac4-8393-c866d813b8d1''"

text \<open>The state after \<^verbatim>\<open>generate(user42, 'api', 'live')\<close> in the empty state.\<close>

definition issuedState :: auth_state where
  "issuedState =
     \<lparr>user = None,
      store = [\<lparr>tr_user = user42, tr_type = ''api'',
                tr_token = ''110ec58aa0f24ac48393c866d813b8d1'', tr_columns = []\<rparr>],
      trace = [EvSaveToken ''110ec58aa0f24ac48393c866d813b8d1'' ''api'',
               EvEncrypt ''42:~~:110ec58aa0f24ac48393c866d813b8d1'']\<rparr>"

definition issuedToken :: string where
  "issuedToken = ''api_live_1d8b318d668c39384ca42f0aa85ce011:~~:24''"

text \<open>The same state with the user already attached to the request.\<close>

definition attachedState :: auth_state where
  "attachedState = issuedState\<lparr>user := Some user42\<rparr>"

section \<open>Splitting strings\<close>

lemma splitFrom_without_sep:
  assumes "sep \<noteq> []" and "hd sep \<notin> set xs"
  shows "splitFrom sep cur xs = [cur @ xs]"
  using assms
proof (induction xs arbitrary: cur)
  case Nil
  then show ?case by simp
next
  case (Cons c cs)
  from Cons.prems have "take (length sep) (c # cs) \<noteq> sep"
    by (cases sep) auto
  with Cons show ?case by simp
qed

lemma splitFrom_at_sep:
  assumes "sep \<noteq> []" and "hd sep \<notin> set xs"
  shows "splitFrom sep cur (xs @ sep @ rest) = (cur @ xs) # splitFrom sep [] rest"
  using assms
proof (induction xs arbitrary: cur)
  case Nil
  then obtain c cs where sep: "sep = c # cs" by (cases sep) auto
  then show ?case by simp
next
  case (Cons c cs)
  from Cons.prems have "take (length sep) (c # cs @ sep @ rest) \<noteq> sep"
    by (cases sep) auto
  with Cons show ?case by simp
qed

lemma js_split_underscore3:
  assumes "CHR ''_'' \<notin> set a" and "CHR ''_'' \<notin> set b" and "CHR ''_'' \<notin> set c"
  shows "js_split ''_'' (a @ ''_'' @ b @ ''_'' @ c) = [a, b, c]"
proof -
  have "splitFrom ''_'' [] (a @ ''_'' @ b @ ''_'' @ c) = a # splitFrom ''_'' [] (b @ ''_'' @ c)"
    using splitFrom_at_sep [of "''_''" a "[]" "b @ ''_'' @ c"] assms(1) by simp
  also have "splitFrom ''_'' [] (b @ ''_'' @ c) = b # splitFrom ''_'' [] c"
    using splitFrom_at_sep [of "''_''" b "[]" c] assms(2) by simp
  also have "splitFrom ''_'' [] c = [c]"
    using splitFrom_without_sep [of "''_''" c "[]"] assms(3) by simp
  finally show ?thesis by (simp add: js_split_def)
qed

lemma js_split_delimiter:
  assumes "CHR '':'' \<notin> set u" and "CHR '':'' \<notin> set p"
  shows "js_split DELIMITER (u @ DELIMITER @ p) = [u, p]"
proof -
  have "splitFrom DELIMITER [] (u @ DELIMITER @ p) = u # splitFrom DELIMITER [] p"
    using splitFrom_at_sep [of DELIMITER u "[]" p] assms(1) by (simp add: DELIMITER_def)
  also have "splitFrom DELIMITER [] p = [p]"
    using splitFrom_without_sep [of DELIMITER p "[]"] assms(2) by (simp add: DELIMITER_def)
  finally show ?thesis by (simp add: js_split_def DELIMITER_def)
qed

section \<open>What generate does\<close>

lemma generate_success:
  assumes "generate cx usr tokenType environment columns uuid4 s = (Inr r, s')"
  shows "\<exists>u. usr = Some u \<and> truthy (getProp u (primaryKey cx)) \<and>
            \<not> badConfiguration cx tokenType environment \<and>
            r = \<lparr>rtype = ''bearer'',
                 rtoken = encodeToken cx (toString (getProp u (primaryKey cx)))
                            (filter (\<lambda>c. c \<noteq> CHR ''-'') uuid4) tokenType environment\<rparr> \<and>
            s' = s\<lparr>store := saveToken u (filter (\<lambda>c. c \<noteq> CHR ''-'') uuid4) tokenType columns (store s),
                   trace := trace s @
                     [EvSaveToken (filter (\<lambda>c. c \<noteq> CHR ''-'') uuid4) tokenType,
                      EvEncrypt (toString (getProp u (primaryKey cx)) @ DELIMITER @
                                 filter (\<lambda>c. c \<noteq> CHR ''-'') uuid4)]\<rparr>"
  using assms
  by (auto simp: generate_def badConfiguration_def addEvents_def Let_def
           split: if_splits option.splits)

lemma generate_failure:
  assumes "generate cx usr tokenType environment columns uuid4 s = (Inl e, s')"
  shows "s' = s"
  using assms
  by (auto simp: generate_def Let_def split: if_splits option.splits)

lemma findByToken_saved:
  assumes "truthy (getProp u (primaryKey cx))"
  shows "findByToken cx (Str plainToken) (Str tokenType)
           [(foreignKey cx, Str (toString (getProp u (primaryKey cx))))]
           (saveToken u plainToken tokenType columns st) \<noteq> None"
proof -
  let ?r = "\<lparr>tr_user = u, tr_type = tokenType, tr_token = plainToken, tr_columns = columns\<rparr>"
  let ?flt = "[(foreignKey cx, Str (toString (getProp u (primaryKey cx))))]"
  have "getProp u (primaryKey cx) \<noteq> Undefined" "getProp u (primaryKey cx) \<noteq> Null"
    using assms by auto
  then have "matches cx (Str plainToken) (Str tokenType) ?flt ?r"
    by (simp add: matches_def column_equals_def column_def)
  then have "filter (matches cx (Str plainToken) (Str tokenType) ?flt)
               (saveToken u plainToken tokenType columns st) \<noteq> []"
    by (simp add: saveToken_def)
  then show ?thesis
    by (simp add: findByToken_def split: list.splits)
qed

lemma generate_bad_configuration:
  assumes "badConfiguration cx tokenType environment"
  shows "\<exists>e. generate cx usr tokenType environment columns uuid4 s = (Inl e, s) \<and>
             isConfigurationError e"
  using assms
  by (auto simp: badConfiguration_def generate_def isConfigurationError_def configMessages_def)

lemma generate_missing_identity:
  assumes "\<not> badConfiguration cx tokenType environment"
    and "\<not> truthy (getProp u (primaryKey cx))"
  shows "generate cx (Some u) tokenType environment columns uuid4 s =
           (Inl (RuntimeException ''Primary key value is missing for user''), s)"
  using assms
  by (auto simp: badConfiguration_def generate_def)

lemma generate_example:
  "generate (exampleScheme rq) (Some user42) ''api'' ''live'' [] exampleUuid emptyState
     = (Inr \<lparr>rtype = ''bearer'', rtoken = issuedToken\<rparr>, issuedState)"
  by (simp add: generate_def exampleScheme_def user42_def getProp_def exampleUuid_def
      emptyState_def issuedState_def issuedToken_def addEvents_def saveToken_def
      encodeToken_def DELIMITER_def string_of_int_def Let_def)

text \<open>
  C5: \<^verbatim>\<open>generate\<close> fails at once, before any collaborator is called and with the state
  untouched, with a configuration error when the token type is empty, when the configured
  group is unset or empty, or when the environment is empty or contains an underscore. With
  a good configuration and a user whose primary-key value is missing it fails with the
  missing-identity error. The two categories exclude each other, and neither is the
  per-request error \<open>InvalidApiToken\<close>.
\<close>

theorem generate_fails_eagerly:
  "(badConfiguration cx tokenType environment \<longrightarrow>
      (\<exists>e. generate cx usr tokenType environment columns uuid4 s = (Inl e, s) \<and>
           isConfigurationError e \<and> \<not> isMissingIdentityError e \<and> e \<noteq> InvalidApiToken)) \<and>
   (\<not> badConfiguration cx tokenType environment \<and> \<not> truthy (getProp u (primaryKey cx)) \<longrightarrow>
      (\<exists>e. generate cx (Some u) tokenType environment columns uuid4 s = (Inl e, s) \<and>
           isMissingIdentityError e \<and> \<not> isConfigurationError e \<and> e \<noteq> InvalidApiToken))"
proof (intro conjI impI)
  assume "badConfiguration cx tokenType environment"
  then obtain e where e: "generate cx usr tokenType environment columns uuid4 s = (Inl e, s)"
    "isConfigurationError e"
    using generate_bad_configuration by blast
  then have "\<not> isMissingIdentityError e" "e \<noteq> InvalidApiToken"
    by (auto simp: isConfigurationError_def isMissingIdentityError_def configMessages_def)
  with e show "\<exists>e. generate cx usr tokenType environment columns uuid4 s = (Inl e, s) \<and>
           isConfigurationError e \<and> \<not> isMissingIdentityError e \<and> e \<noteq> InvalidApiToken"
    by blast
next
  assume "\<not> badConfiguration cx tokenType environment \<and> \<not> truthy (getProp u (primaryKey cx))"
  then have "generate cx (Some u) tokenType environment columns uuid4 s =
           (Inl (RuntimeException ''Primary key value is missing for user''), s)"
    using generate_missing_identity by blast
  then show "\<exists>e. generate cx (Some u) tokenType environment columns uuid4 s = (Inl e, s) \<and>
           isMissingIdentityError e \<and> \<not> isConfigurationError e \<and> e \<noteq> InvalidApiToken"
    by (simp add: isConfigurationError_def isMissingIdentityError_def configMessages_def)
qed

theorem generate_fails_eagerly_witness:
  "generate (exampleScheme noToken) (Some user42) [] ''live'' [] exampleUuid emptyState
     = (Inl (RuntimeException ''Token type cannot be empty''), emptyState) \<and>
   generate (exampleScheme noToken) (Some user42) ''api'' ''live_eu'' [] exampleUuid emptyState
     = (Inl (RuntimeException ''Token environment cannot contain underscores''), emptyState) \<and>
   generate (exampleScheme noToken) (Some [(''name'', Str ''ann'')]) ''api'' ''live'' []
       exampleUuid emptyState
     = (Inl (RuntimeException ''Primary key value is missing for user''), emptyState)"
proof -
  let ?cx = "exampleScheme noToken"
  have b1: "badConfiguration ?cx [] ''live''"
    by (simp add: badConfiguration_def)
  have b2: "badConfiguration ?cx ''api'' ''live_eu''"
    by (simp add: badConfiguration_def)
  have b3: "\<not> badConfiguration ?cx ''api'' ''live'' \<and>
            \<not> truthy (getProp [(''name'', Str ''ann'')] (primaryKey ?cx))"
    by (simp add: badConfiguration_def exampleScheme_def getProp_def)
  from generate_fails_eagerly [of ?cx "[]" "''live''" "Some user42" "[]" exampleUuid emptyState]
    b1
  have 1: "\<exists>e. generate ?cx (Some user42) [] ''live'' [] exampleUuid emptyState
                 = (Inl e, emptyState)"
    by blast
  from generate_fails_eagerly
    [of ?cx "''api''" "''live_eu''" "Some user42" "[]" exampleUuid emptyState] b2
  have 2: "\<exists>e. generate ?cx (Some user42) ''api'' ''live_eu'' [] exampleUuid emptyState
                 = (Inl e, emptyState)"
    by blast
  from generate_fails_eagerly
    [of ?cx "''api''" "''live''" _ _ _ _ "[(''name'', Str ''ann'')]", THEN conjunct2, rule_format,
     OF b3, of "[]" exampleUuid emptyState]
  have 3: "\<exists>e. generate ?cx (Some [(''name'', Str ''ann'')]) ''api'' ''live'' [] exampleUuid
                   emptyState = (Inl e, emptyState) \<and> isMissingIdentityError e"
    by blast
  from 1 have "generate ?cx (Some user42) [] ''live'' [] exampleUuid emptyState
     = (Inl (RuntimeException ''Token type cannot be empty''), emptyState)"
    by (simp add: generate_def)
  moreover from 2 have "generate ?cx (Some user42) ''api'' ''live_eu'' [] exampleUuid emptyState
     = (Inl (RuntimeException ''Token environment cannot contain underscores''), emptyState)"
    by (simp add: generate_def exampleScheme_def)
  moreover from 3 have "generate ?cx (Some [(''name'', Str ''ann'')]) ''api'' ''live'' []
       exampleUuid emptyState
     = (Inl (RuntimeException ''Primary key value is missing for user''), emptyState)"
    by (auto simp: isMissingIdentityError_def)
  ultimately show ?thesis by blast
qed

text \<open>
  C6: when \<^verbatim>\<open>generate\<close> succeeds, the record of the fresh plain token has been appended
  to the store, where a lookup by that plain token, its type and the user finds it, and in
  the trace of collaborator calls the save comes before the encryption that builds the wire
  token which is returned.
\<close>

theorem generate_persists_first:
  assumes "generate cx usr tokenType environment columns uuid4 s = (Inr r, s')"
  shows "\<exists>u userId plainToken.
           usr = Some u \<and> userId = toString (getProp u (primaryKey cx)) \<and>
           plainToken = filter (\<lambda>c. c \<noteq> CHR ''-'') uuid4 \<and>
           store s' = store s @ [\<lparr>tr_user = u, tr_type = tokenType, tr_token = plainToken,
                                  tr_columns = columns\<rparr>] \<and>
           findByToken cx (Str plainToken) (Str tokenType) [(foreignKey cx, Str userId)]
             (store s') \<noteq> None \<and>
           trace s' = trace s @ [EvSaveToken plainToken tokenType,
                                 EvEncrypt (userId @ DELIMITER @ plainToken)] \<and>
           rtoken r = tokenType @ ''_'' @ environment @ ''_'' @
                        encrypt cx (userId @ DELIMITER @ plainToken)"
proof -
  from generate_success [OF assms] obtain u where u: "usr = Some u"
    "truthy (getProp u (primaryKey cx))"
    "r = \<lparr>rtype = ''bearer'',
          rtoken = encodeToken cx (toString (getProp u (primaryKey cx)))
                     (filter (\<lambda>c. c \<noteq> CHR ''-'') uuid4) tokenType environment\<rparr>"
    "s' = s\<lparr>store := saveToken u (filter (\<lambda>c. c \<noteq> CHR ''-'') uuid4) tokenType columns (store s),
            trace := trace s @
              [EvSaveToken (filter (\<lambda>c. c \<noteq> CHR ''-'') uuid4) tokenType,
               EvEncrypt (toString (getProp u (primaryKey cx)) @ DELIMITER @
                          filter (\<lambda>c. c \<noteq> CHR ''-'') uuid4)]\<rparr>"
    by blast
  have "findByToken cx (Str (filter (\<lambda>c. c \<noteq> CHR ''-'') uuid4)) (Str tokenType)
          [(foreignKey cx, Str (toString (getProp u (primaryKey cx))))] (store s') \<noteq> None"
    using findByToken_saved [OF u(2)] u(4) by simp
  moreover have "store s' = store s @ [\<lparr>tr_user = u, tr_type = tokenType,
      tr_token = filter (\<lambda>c. c \<noteq> CHR ''-'') uuid4, tr_columns = columns\<rparr>]"
    using u(4) by (simp add: saveToken_def)
  ultimately show ?thesis
    using u by (simp add: encodeToken_def)
qed

theorem generate_persists_first_witness:
  "\<exists>r s'. generate (exampleScheme noToken) (Some user42) ''api'' ''live'' [] exampleUuid emptyState
            = (Inr r, s') \<and>
     store s' = [\<lparr>tr_user = user42, tr_type = ''api'',
                  tr_token = ''110ec58aa0f24ac48393c866d813b8d1'', tr_columns = []\<rparr>] \<and>
     trace s' = [EvSaveToken ''110ec58aa0f24ac48393c866d813b8d1'' ''api'',
                 EvEncrypt ''42:~~:110ec58aa0f24ac48393c866d813b8d1''] \<and>
     rtoken r = ''api_live_1d8b318d668c39384ca42f0aa85ce011:~~:24''"
proof -
  have g: "generate (exampleScheme noToken) (Some user42) ''api'' ''live'' [] exampleUuid emptyState
        = (Inr \<lparr>rtype = ''bearer'', rtoken = issuedToken\<rparr>, issuedState)"
    by (simp add: generate_def exampleScheme_def user42_def getProp_def exampleUuid_def
        emptyState_def issuedState_def issuedToken_def addEvents_def saveToken_def
        encodeToken_def DELIMITER_def string_of_int_def noToken_def Let_def)
  from generate_persists_first [OF g] show ?thesis
    using g
    by (simp add: exampleScheme_def user42_def getProp_def exampleUuid_def emptyState_def
        DELIMITER_def string_of_int_def)
qed

text \<open>
  C10: \<^verbatim>\<open>generate\<close> leaves the attached user as it was. A failing call leaves the whole
  state as it was; a successful call appends one record to the store and adds to the trace
  one save followed by one encryption, and changes nothing else.
\<close>

theorem generate_frame:
  "user (snd (generate cx usr tokenType environment columns uuid4 s)) = user s \<and>
   (case generate cx usr tokenType environment columns uuid4 s of
      (Inl e, s') \<Rightarrow> s' = s
    | (Inr r, s') \<Rightarrow>
        (\<exists>rec payload. s' = s\<lparr>store := store s @ [rec],
                               trace := trace s @ [EvSaveToken (tr_token rec) (tr_type rec),
                                                   EvEncrypt payload]\<rparr>))"
proof (cases "generate cx usr tokenType environment columns uuid4 s")
  case (Pair res s')
  show ?thesis
  proof (cases res)
    case (Inl e)
    with Pair generate_failure have "s' = s" by blast
    with Pair Inl show ?thesis by simp
  next
    case (Inr r)
    with Pair have g: "generate cx usr tokenType environment columns uuid4 s = (Inr r, s')"
      by simp
    from generate_success [OF g] obtain u where
      s': "s' = s\<lparr>store := saveToken u (filter (\<lambda>c. c \<noteq> CHR ''-'') uuid4) tokenType columns (store s),
            trace := trace s @
              [EvSaveToken (filter (\<lambda>c. c \<noteq> CHR ''-'') uuid4) tokenType,
               EvEncrypt (toString (getProp u (primaryKey cx)) @ DELIMITER @
                          filter (\<lambda>c. c \<noteq> CHR ''-'') uuid4)]\<rparr>"
      by blast
    let ?rec = "\<lparr>tr_user = u, tr_type = tokenType,
                 tr_token = filter (\<lambda>c. c \<noteq> CHR ''-'') uuid4, tr_columns = columns\<rparr>"
    have "s' = s\<lparr>store := store s @ [?rec],
                 trace := trace s @ [EvSaveToken (tr_token ?rec) (tr_type ?rec),
                   EvEncrypt (toString (getProp u (primaryKey cx)) @ DELIMITER @
                          filter (\<lambda>c. c \<noteq> CHR ''-'') uuid4)]\<rparr>"
      using s' by (simp add: saveToken_def)
    then have "\<exists>rec payload. s' = s\<lparr>store := store s @ [rec],
                               trace := trace s @ [EvSaveToken (tr_token rec) (tr_type rec),
                                                   EvEncrypt payload]\<rparr>"
      by blast
    moreover from this have "user s' = user s" by auto
    ultimately show ?thesis using g by simp
  qed
qed

theorem generate_frame_witness:
  "user (snd (generate (exampleScheme noToken) (Some user42) ''api'' ''live'' [] exampleUuid
            attachedState)) = Some user42 \<and>
   snd (generate (exampleScheme noToken) (Some user42) [] ''live'' [] exampleUuid attachedState)
     = attachedState"
proof -
  let ?cx = "exampleScheme noToken"
  have 1: "user (snd (generate ?cx (Some user42) ''api'' ''live'' [] exampleUuid attachedState))
             = user attachedState"
    using generate_frame [of ?cx "Some user42" "''api''" "''live''" "[]" exampleUuid attachedState]
    by blast
  have "generate ?cx (Some user42) [] ''live'' [] exampleUuid attachedState
          = (Inl (RuntimeException ''Token type cannot be empty''), attachedState)"
    by (simp add: generate_def)
  then have 2: "snd (generate ?cx (Some user42) [] ''live'' [] exampleUuid attachedState)
                  = attachedState"
    by simp
  from 1 2 show ?thesis by (simp add: attachedState_def)
qed

section \<open>What check does\<close>

lemma check_attached:
  assumes "user s \<noteq> None"
  shows "check cx s = (Inr True, s)"
  using assms by (simp add: check_def)

lemma check_success_attaches:
  assumes "check cx s = (Inr True, s')"
  shows "user s' \<noteq> None"
  using assms
  by (auto simp: check_def Let_def addEvents_def
           split: if_splits option.splits sum.splits prod.splits)

text \<open>
  C8: with a user already attached to the request, \<^verbatim>\<open>check\<close> returns true and leaves
  the state, the trace of collaborator calls included, as it was: it reads no header,
  decrypts nothing and queries no store. A call that returned true has attached a user, so
  the call after it returns true in the same way.
\<close>

theorem check_idempotent:
  "(user s \<noteq> None \<longrightarrow> check cx s = (Inr True, s)) \<and>
   (check cx s = (Inr True, s') \<longrightarrow> check cx s' = (Inr True, s'))"
  using check_attached check_success_attaches by blast

theorem check_idempotent_witness:
  "check (exampleScheme (bearerRequest issuedToken)) attachedState = (Inr True, attachedState)"
proof -
  have u: "user attachedState \<noteq> None"
    by (simp add: attachedState_def)
  from check_idempotent [of attachedState "exampleScheme (bearerRequest issuedToken)" attachedState]
  have 1: "check (exampleScheme (bearerRequest issuedToken)) attachedState = (Inr True, attachedState)"
    using u by blast
  from check_idempotent [of attachedState "exampleScheme (bearerRequest issuedToken)" attachedState]
  show ?thesis using 1 by blast
qed

lemma check_unbound_group:
  assumes "user s = None" and "getAuthHeader (req cx) = Some t" and "t \<noteq> []"
    and "globalThis cx ''group'' = None"
  shows "check cx s = (Inl (ReferenceError ''group is not defined''), addEvents [EvGetAuthHeader] s)"
  using assms by (simp add: check_def Let_def)

text \<open>
  X4: with no user attached and no token in the request, \<^verbatim>\<open>check\<close> raises
  \<open>InvalidApiToken\<close> after reading the header only.
\<close>

theorem check_missing_token:
  assumes "user s = None" and "getAuthHeader (req cx) = None \<or> getAuthHeader (req cx) = Some []"
  shows "check cx s = (Inl InvalidApiToken, addEvents [EvGetAuthHeader] s)"
  using assms by (auto simp: check_def Let_def)

theorem check_missing_token_witness:
  "check (exampleScheme noToken) issuedState
     = (Inl InvalidApiToken, addEvents [EvGetAuthHeader] issuedState)"
  by (rule check_missing_token)
     (simp_all add: issuedState_def getAuthHeader_def exampleScheme_def noToken_def)

lemma getAuthHeader_bearer:
  "getAuthHeader (req (exampleScheme (bearerRequest t))) = Some t"
  by (simp add: getAuthHeader_def exampleScheme_def bearerRequest_def)

lemma check_example:
  assumes "user s = None" and "t \<noteq> []"
  shows "check (exampleScheme (bearerRequest t)) s
           = (Inl (ReferenceError ''group is not defined''), addEvents [EvGetAuthHeader] s)"
proof (rule check_unbound_group [where t = t])
  show "getAuthHeader (req (exampleScheme (bearerRequest t))) = Some t"
    by (rule getAuthHeader_bearer)
  show "globalThis (exampleScheme (bearerRequest t)) ''group'' = None"
    by (simp add: exampleScheme_def)
qed (use assms in simp_all)

text \<open>
  C1: the code at the scenario of the claim. \<^verbatim>\<open>generate(user, 'api', 'live')\<close> for the user
  with id 42 returns a token of the form \<^verbatim>\<open>api_live_<opaque>\<close> and persists its record;
  \<^verbatim>\<open>check()\<close> on a request that carries \<^verbatim>\<open>Authorization: Bearer <that token>\<close> then
  stops at line 188, where reading the undeclared identifier \<^verbatim>\<open>group\<close> throws a
  \<open>ReferenceError\<close>: it does not return true, and no user is attached.
\<close>

theorem issued_token_fails_check:
  "generate (exampleScheme noToken) (Some user42) ''api'' ''live'' [] exampleUuid emptyState
     = (Inr \<lparr>rtype = ''bearer'', rtoken = issuedToken\<rparr>, issuedState) \<and>
   check (exampleScheme (bearerRequest issuedToken)) issuedState
     = (Inl (ReferenceError ''group is not defined''), addEvents [EvGetAuthHeader] issuedState) \<and>
   user (addEvents [EvGetAuthHeader] issuedState) = None"
proof -
  have "check (exampleScheme (bearerRequest issuedToken)) issuedState
     = (Inl (ReferenceError ''group is not defined''), addEvents [EvGetAuthHeader] issuedState)"
    by (rule check_example) (simp_all add: issuedState_def issuedToken_def)
  then show ?thesis
    by (simp add: generate_example addEvents_def issuedState_def)
qed

text \<open>
  C2: the code at three invalid tokens, with the configured group \<^verbatim>\<open>'api_token'\<close>: a token
  that names another group, a token with fewer than three segments, and a token with
  another environment. Each of them fails with the \<open>ReferenceError\<close> of line 188, not with
  \<open>InvalidApiToken\<close>, before anything is decrypted or looked up.
\<close>

theorem invalid_tokens_raise_reference_error:
  "check (exampleScheme (bearerRequest ''other_live_x'')) issuedState
     = (Inl (ReferenceError ''group is not defined''), addEvents [EvGetAuthHeader] issuedState) \<and>
   check (exampleScheme (bearerRequest ''malformed'')) issuedState
     = (Inl (ReferenceError ''group is not defined''), addEvents [EvGetAuthHeader] issuedState) \<and>
   check (exampleScheme (bearerRequest ''api_test_1d8b318d668c39384ca42f0aa85ce011:~~:24''))
       issuedState
     = (Inl (ReferenceError ''group is not defined''), addEvents [EvGetAuthHeader] issuedState)"
proof (intro conjI)
  show "check (exampleScheme (bearerRequest ''other_live_x'')) issuedState
     = (Inl (ReferenceError ''group is not defined''), addEvents [EvGetAuthHeader] issuedState)"
    by (rule check_example) (simp_all add: issuedState_def)
  show "check (exampleScheme (bearerRequest ''malformed'')) issuedState
     = (Inl (ReferenceError ''group is not defined''), addEvents [EvGetAuthHeader] issuedState)"
    by (rule check_example) (simp_all add: issuedState_def)
  show "check (exampleScheme (bearerRequest ''api_test_1d8b318d668c39384ca42f0aa85ce011:~~:24''))
       issuedState
     = (Inl (ReferenceError ''group is not defined''), addEvents [EvGetAuthHeader] issuedState)"
    by (rule check_example) (simp_all add: issuedState_def)
qed

section \<open>Encoding and decoding the wire token\<close>

text \<open>
  C3: the code at two inputs that \<^verbatim>\<open>generate\<close> accepts. With the token type
  \<^verbatim>\<open>'api_token'\<close> the first underscore of the type ends the type segment, so the
  environment joins the payload and the decoded plain token is not the original. With a
  ciphertext that contains an underscore (here from the user id \<^verbatim>\<open>'user_7'\<close>) the payload
  pieces are joined with the empty string, so the underscore is lost and the decoded user id
  is not the original.
\<close>

theorem decode_loses_underscores:
  "decodeToken (exampleScheme noToken)
     (encodeToken (exampleScheme noToken) ''42'' ''abc'' ''api_token'' ''live'')
     = Inr (Str ''42'', Str ''abcevil'') \<and>
   encodeToken (exampleScheme noToken) ''user_7'' ''abc'' ''api'' ''live''
     = ''api_live_cba:~~:7_resu'' \<and>
   decodeToken (exampleScheme noToken) ''api_live_cba:~~:7_resu''
     = Inr (Str ''user7'', Str ''abc'')"
  by (simp add: decodeToken_def encodeToken_def splitToken_def decryptPayload_def js_split_def
      element_def exampleScheme_def DELIMITER_def Let_def)

text \<open>
  X1: when the token type, the environment and the ciphertext contain no underscore, the
  encryption collaborator decrypts what it encrypted, and the user id and the plain token
  contain no colon, splitting the wire token gives back the type, the environment and the
  ciphertext, and decoding gives back the user id and the plain token.
\<close>

theorem decode_encode:
  assumes "CHR ''_'' \<notin> set tokenType" and "CHR ''_'' \<notin> set environment"
    and "CHR ''_'' \<notin> set (encrypt cx (userId @ DELIMITER @ plainToken))"
    and "decrypt cx (encrypt cx (userId @ DELIMITER @ plainToken))
           = Some (userId @ DELIMITER @ plainToken)"
    and "CHR '':'' \<notin> set userId" and "CHR '':'' \<notin> set plainToken"
  shows "splitToken (encodeToken cx userId plainToken tokenType environment) =
           \<lparr>d_tokenType = Str tokenType, d_environment = Str environment,
            d_tokens = [encrypt cx (userId @ DELIMITER @ plainToken)]\<rparr> \<and>
         decodeToken cx (encodeToken cx userId plainToken tokenType environment) =
           Inr (Str userId, Str plainToken)"
proof -
  have s: "splitToken (encodeToken cx userId plainToken tokenType environment) =
           \<lparr>d_tokenType = Str tokenType, d_environment = Str environment,
            d_tokens = [encrypt cx (userId @ DELIMITER @ plainToken)]\<rparr>"
    using js_split_underscore3 [OF assms(1,2,3)]
    by (simp add: splitToken_def encodeToken_def element_def)
  have "decodeToken cx (encodeToken cx userId plainToken tokenType environment) =
           Inr (Str userId, Str plainToken)"
    using js_split_delimiter [OF assms(5,6)] assms(4)
    by (simp add: decodeToken_def s decryptPayload_def element_def)
  with s show ?thesis by simp
qed

theorem decode_encode_witness:
  "decodeToken (exampleScheme noToken)
     (encodeToken (exampleScheme noToken) ''42'' ''abc'' ''api'' ''live'')
     = Inr (Str ''42'', Str ''abc'')"
proof -
  have "decodeToken (exampleScheme noToken)
     (encodeToken (exampleScheme noToken) ''42'' ''abc'' ''api'' ''live'')
     = Inr (Str ''42'', Str ''abc'')"
    by (rule decode_encode [THEN conjunct2])
       (simp_all add: exampleScheme_def DELIMITER_def)
  then show ?thesis .
qed

section \<open>What listTokensForUser does\<close>

text \<open>
  C4: the code after one successful \<^verbatim>\<open>generate(user, 'api', 'live')\<close>. The token is saved
  with the type \<^verbatim>\<open>'api'\<close>, and \<^verbatim>\<open>listTokensForUser\<close> asks the store for the type
  \<^verbatim>\<open>'api_token'\<close>, so it returns the empty sequence and not one record.
\<close>

theorem list_misses_issued_token:
  "generate (exampleScheme noToken) (Some user42) ''api'' ''live'' [] exampleUuid emptyState
     = (Inr \<lparr>rtype = ''bearer'', rtoken = issuedToken\<rparr>, issuedState) \<and>
   listTokensForUser (exampleScheme noToken) (Some user42) issuedState
     = ([], addEvents [EvListTokens ''api_token''] issuedState)"
  by (simp add: generate_example listTokensForUser_def listTokens_def issuedState_def Let_def)

section \<open>What loginIfCan does\<close>

text \<open>
  X2: \<^verbatim>\<open>loginIfCan\<close> never raises: whatever the scheme and the state, it returns a
  boolean.
\<close>

theorem loginIfCan_never_raises:
  "\<exists>b s'. loginIfCan cx s = (Inr b, s')"
  by (auto simp: loginIfCan_def Let_def split: option.splits prod.splits sum.splits)

text \<open>
  X3: with no user attached and no token in the request, \<^verbatim>\<open>loginIfCan\<close> returns false
  after reading the header only: \<^verbatim>\<open>check\<close> is not called, nothing is decrypted and the
  store is not queried.
\<close>

theorem loginIfCan_no_token:
  assumes "user s = None" and "getAuthHeader (req cx) = None \<or> getAuthHeader (req cx) = Some []"
  shows "loginIfCan cx s = (Inr False, addEvents [EvGetAuthHeader] s)"
  using assms by (auto simp: loginIfCan_def Let_def)

theorem loginIfCan_no_token_witness:
  "loginIfCan (exampleScheme noToken) issuedState
     = (Inr False, addEvents [EvGetAuthHeader] issuedState)"
  by (rule loginIfCan_no_token)
     (simp_all add: issuedState_def getAuthHeader_def exampleScheme_def noToken_def)

lemma loginIfCan_delegates:
  assumes "user s = None" and "getAuthHeader (req cx) = Some t" and "t \<noteq> []"
  shows "loginIfCan cx s =
           (case check cx (addEvents [EvGetAuthHeader] s) of
              (Inr b, s1) \<Rightarrow> (Inr b, s1) | (Inl e, s1) \<Rightarrow> (Inr False, s1))"
  using assms by (simp add: loginIfCan_def Let_def)

text \<open>
  C7: the code at a token that \<^verbatim>\<open>generate\<close> has just issued and persisted.
  \<^verbatim>\<open>loginIfCan\<close> reads the header, calls \<^verbatim>\<open>check\<close>, which throws the \<open>ReferenceError\<close>
  of line 188, and turns that error into false: it does not return true for the valid token.
\<close>

theorem loginIfCan_rejects_issued_token:
  "loginIfCan (exampleScheme (bearerRequest issuedToken)) issuedState
     = (Inr False, addEvents [EvGetAuthHeader, EvGetAuthHeader] issuedState)"
proof -
  have "check (exampleScheme (bearerRequest issuedToken)) (addEvents [EvGetAuthHeader] issuedState)
     = (Inl (ReferenceError ''group is not defined''),
        addEvents [EvGetAuthHeader] (addEvents [EvGetAuthHeader] issuedState))"
    by (rule check_example) (simp_all add: issuedState_def issuedToken_def addEvents_def)
  moreover have "user issuedState = None" "issuedToken \<noteq> []"
    by (simp_all add: issuedState_def issuedToken_def)
  ultimately show ?thesis
    using loginIfCan_delegates [of issuedState "exampleScheme (bearerRequest issuedToken)" issuedToken]
    by (simp add: getAuthHeader_bearer addEvents_def)
qed

section \<open>The token type is not checked for underscores\<close>

text \<open>
  C9: the code at the token type \<^verbatim>\<open>'api_token'\<close>, the type that \<^verbatim>\<open>listTokensForUser\<close>
  asks for. \<^verbatim>\<open>generate\<close> succeeds and returns \<^verbatim>\<open>api_token_live_<c>\<close>, whose type
  contains an underscore; \<^verbatim>\<open>check\<close> would split it into the type \<^verbatim>\<open>'api'\<close> and the
  environment \<^verbatim>\<open>'token'\<close>.
\<close>

theorem generate_accepts_underscore_type:
  "generate (exampleScheme noToken) (Some user42) ''api_token'' ''live'' [] exampleUuid emptyState
     = (Inr \<lparr>rtype = ''bearer'',
             rtoken = ''api_token_live_1d8b318d668c39384ca42f0aa85ce011:~~:24''\<rparr>,
        \<lparr>user = None,
         store = [\<lparr>tr_user = user42, tr_type = ''api_token'',
                   tr_token = ''110ec58aa0f24ac48393c866d813b8d1'', tr_columns = []\<rparr>],
         trace = [EvSaveToken ''110ec58aa0f24ac48393c866d813b8d1'' ''api_token'',
                  EvEncrypt ''42:~~:110ec58aa0f24ac48393c866d813b8d1'']\<rparr>) \<and>
   splitToken ''api_token_live_1d8b318d668c39384ca42f0aa85ce011:~~:24''
     = \<lparr>d_tokenType = Str ''api'', d_environment = Str ''token'',
        d_tokens = [''live'', ''1d8b318d668c39384ca42f0aa85ce011:~~:24'']\<rparr>"
  by (simp add: generate_def exampleScheme_def user42_def getProp_def exampleUuid_def
      emptyState_def addEvents_def saveToken_def encodeToken_def DELIMITER_def
      string_of_int_def Let_def splitToken_def js_split_def element_def)

end
